theory Spec2Isabelle
  imports Complex_Main "HOL-Library.Word"
begin

section \<open>Data model of main.cpp\<close>

text \<open>
  The firmware is eight FreeRTOS tasks over a handful of global variables, five mutexes and
  three queues. Each task body is embedded as a state transformer on one record holding
  the globals, the queues, the tasks' loop-carried locals and a trace of every effect the
  task performs (mutex operations, accesses to the shared globals, hardware commands,
  log lines). Values supplied by the hardware or the network are parameters.
\<close>

datatype EventType =
  EVENT_CAR_ENTRY | EVENT_CAR_EXIT | EVENT_GATE_OPEN | EVENT_GATE_CLOSE | EVENT_PARKING_FULL

record SystemEvent =
  ev_type :: EventType
  ev_value :: int

record LCDMessage =
  line1 :: string
  line2 :: string

datatype mutex = slotsMutex | gateStatusMutex | lcdMutex | dhtMutex | timeMutex

text \<open>
  A C \<open>float\<close> is either not-a-number or a number. The tasks store, copy and print
  floats and test them with \<open>isnan\<close>; the only arithmetic on them, the two threshold
  comparisons of \<open>dhtTask\<close>, is not computed here: their outcomes are inputs.
\<close>

datatype cfloat = NaN | Num real

definition isnan :: "cfloat \<Rightarrow> bool" where
  "isnan x = (x = NaN)"

datatype var =
  V_availableSlots | V_gateStatus | V_temperature | V_humidity
  | V_currentTime | V_currentDate | V_wifiConnected | V_internetConnected

text \<open>
  Arguments of \<open>printf\<close> and the pieces an Arduino \<open>String\<close> is concatenated from.
  The conversion of numbers to text is library code and stays symbolic.
\<close>

datatype arg = AInt int | AWord "32 word" | AFloat cfloat | AStr string | ABool bool

datatype action =
    Take mutex
  | TakeTimeout mutex
  | Give mutex
  | Read var
  | Write var arg
  | ServoWrite int
  | Delay nat
  | SendEntry SystemEvent
  | SendExit SystemEvent
  | SendLcd LCDMessage
  | DigitalWrite nat bool
  | Serial string "arg list"
  | LcdClear
  | LcdSetCursor nat nat
  | LcdPrint "arg list"
  | BotSend string "arg list"
  | ServerSend nat string "arg list"
  | WiFiReconnect

record sys =
  TOTAL_SLOTS :: int
  availableSlots :: int
  gateStatus :: string
  temperature :: cfloat
  humidity :: cfloat
  currentTime :: string
  currentDate :: string
  wifiConnected :: bool
  internetConnected :: bool
  entryQueue :: "SystemEvent list"
  exitQueue :: "SystemEvent list"
  lcdQueue :: "LCDMessage list"
  trace :: "action list"
  entryDetected :: bool
  exitDetected :: bool
  lastTemp :: cfloat
  lastHum :: cfloat
  firstReading :: bool
  lastTimeUpdate :: "32 word"
  lastWiFiCheck :: "32 word"
  lastUpdate :: "32 word"
  msg :: "arg list"
  json :: "arg list"
  timeStr :: string


text \<open>
  The state when \<open>setup\<close> hands over to the scheduler: the initialisers of the globals and
  of the tasks' locals, \<open>wifiConnected\<close> as \<open>setup\<close> found the link, empty queues.
  The lot size is a parameter; the shipped configuration is \<open>TOTAL_PARKING_SLOTS\<close>.
\<close>

definition boot :: "int \<Rightarrow> bool \<Rightarrow> sys" where
  "boot slots wifi =
     \<lparr> TOTAL_SLOTS = slots, availableSlots = slots, gateStatus = ''Closed'',
       temperature = Num 0, humidity = Num 0,
       currentTime = ''00:00:00'', currentDate = ''2024/01/01'',
       wifiConnected = wifi, internetConnected = False,
       entryQueue = [], exitQueue = [], lcdQueue = [], trace = [],
       entryDetected = False, exitDetected = False,
       lastTemp = Num (- 999), lastHum = Num (- 999), firstReading = True,
       lastTimeUpdate = 0, lastWiFiCheck = 0, lastUpdate = 0,
       msg = [], json = [], timeStr = [] \<rparr>"

section \<open>Primitives\<close>

definition emit :: "action \<Rightarrow> sys \<Rightarrow> sys" where
  "emit a s = s\<lparr>trace := trace s @ [a]\<rparr>"

text \<open>Statements in sequence.\<close>

fun seq :: "(sys \<Rightarrow> sys) list \<Rightarrow> sys \<Rightarrow> sys" where
  "seq [] s = s"
| "seq (f # fs) s = seq fs (f s)"

text \<open>The effects a statement adds to the trace.\<close>

definition effects :: "(sys \<Rightarrow> sys) \<Rightarrow> sys \<Rightarrow> action list" where
  "effects f s = drop (length (trace s)) (trace (f s))"

text \<open>
  \<open>xSemaphoreTake(m, portMAX_DELAY)\<close> blocks until the mutex is free, so when it returns it
  returns \<open>pdTRUE\<close>. A take with a finite timeout may fail; whether it succeeded is an
  input \<open>ok\<close> of the caller.
\<close>

definition xSemaphoreTake :: "mutex \<Rightarrow> sys \<Rightarrow> sys" where
  "xSemaphoreTake m = emit (Take m)"

definition xSemaphoreGive :: "mutex \<Rightarrow> sys \<Rightarrow> sys" where
  "xSemaphoreGive m = emit (Give m)"

definition xSemaphoreTake_timed :: "bool \<Rightarrow> mutex \<Rightarrow> (sys \<Rightarrow> sys) list \<Rightarrow> sys \<Rightarrow> sys" where
  "xSemaphoreTake_timed ok m body s =
     (if ok then seq body (emit (Take m) s) else emit (TakeTimeout m) s)"

definition vTaskDelay :: "nat \<Rightarrow> sys \<Rightarrow> sys" where
  "vTaskDelay ms = emit (Delay ms)"

definition Serial_print :: "string \<Rightarrow> arg list \<Rightarrow> sys \<Rightarrow> sys" where
  "Serial_print fmt args = emit (Serial fmt args)"

definition barrierServo_write :: "int \<Rightarrow> sys \<Rightarrow> sys" where
  "barrierServo_write angle = emit (ServoWrite angle)"

text \<open>
  \<open>lcdQueue = xQueueCreate(10, ...)\<close>: a send to a full queue waits its timeout and then
  drops the message.
\<close>

definition xQueueSend_lcd :: "LCDMessage \<Rightarrow> sys \<Rightarrow> sys" where
  "xQueueSend_lcd m s =
     emit (SendLcd m)
       (s\<lparr>lcdQueue := (if length (lcdQueue s) < 10 then lcdQueue s @ [m] else lcdQueue s)\<rparr>)"

text \<open>Reads and writes of the shared globals leave a mark in the trace.\<close>

definition rd_availableSlots :: "(int \<Rightarrow> sys \<Rightarrow> sys) \<Rightarrow> sys \<Rightarrow> sys" where
  "rd_availableSlots k s = k (availableSlots s) (emit (Read V_availableSlots) s)"

definition set_availableSlots :: "int \<Rightarrow> sys \<Rightarrow> sys" where
  "set_availableSlots v s = emit (Write V_availableSlots (AInt v)) (s\<lparr>availableSlots := v\<rparr>)"

definition rd_gateStatus :: "(string \<Rightarrow> sys \<Rightarrow> sys) \<Rightarrow> sys \<Rightarrow> sys" where
  "rd_gateStatus k s = k (gateStatus s) (emit (Read V_gateStatus) s)"

definition set_gateStatus :: "string \<Rightarrow> sys \<Rightarrow> sys" where
  "set_gateStatus v s = emit (Write V_gateStatus (AStr v)) (s\<lparr>gateStatus := v\<rparr>)"

definition rd_temperature :: "(cfloat \<Rightarrow> sys \<Rightarrow> sys) \<Rightarrow> sys \<Rightarrow> sys" where
  "rd_temperature k s = k (temperature s) (emit (Read V_temperature) s)"

definition set_temperature :: "cfloat \<Rightarrow> sys \<Rightarrow> sys" where
  "set_temperature v s = emit (Write V_temperature (AFloat v)) (s\<lparr>temperature := v\<rparr>)"

definition rd_humidity :: "(cfloat \<Rightarrow> sys \<Rightarrow> sys) \<Rightarrow> sys \<Rightarrow> sys" where
  "rd_humidity k s = k (humidity s) (emit (Read V_humidity) s)"

definition set_humidity :: "cfloat \<Rightarrow> sys \<Rightarrow> sys" where
  "set_humidity v s = emit (Write V_humidity (AFloat v)) (s\<lparr>humidity := v\<rparr>)"

definition rd_currentTime :: "(string \<Rightarrow> sys \<Rightarrow> sys) \<Rightarrow> sys \<Rightarrow> sys" where
  "rd_currentTime k s = k (currentTime s) (emit (Read V_currentTime) s)"

definition set_currentTime :: "string \<Rightarrow> sys \<Rightarrow> sys" where
  "set_currentTime v s = emit (Write V_currentTime (AStr v)) (s\<lparr>currentTime := v\<rparr>)"

definition rd_currentDate :: "(string \<Rightarrow> sys \<Rightarrow> sys) \<Rightarrow> sys \<Rightarrow> sys" where
  "rd_currentDate k s = k (currentDate s) (emit (Read V_currentDate) s)"

definition set_currentDate :: "string \<Rightarrow> sys \<Rightarrow> sys" where
  "set_currentDate v s = emit (Write V_currentDate (AStr v)) (s\<lparr>currentDate := v\<rparr>)"

definition rd_wifiConnected :: "(bool \<Rightarrow> sys \<Rightarrow> sys) \<Rightarrow> sys \<Rightarrow> sys" where
  "rd_wifiConnected k s = k (wifiConnected s) (emit (Read V_wifiConnected) s)"

definition set_wifiConnected :: "bool \<Rightarrow> sys \<Rightarrow> sys" where
  "set_wifiConnected v s = emit (Write V_wifiConnected (ABool v)) (s\<lparr>wifiConnected := v\<rparr>)"

definition rd_internetConnected :: "(bool \<Rightarrow> sys \<Rightarrow> sys) \<Rightarrow> sys \<Rightarrow> sys" where
  "rd_internetConnected k s = k (internetConnected s) (emit (Read V_internetConnected) s)"

definition set_internetConnected :: "bool \<Rightarrow> sys \<Rightarrow> sys" where
  "set_internetConnected v s =
     emit (Write V_internetConnected (ABool v)) (s\<lparr>internetConnected := v\<rparr>)"

section \<open>gateTask\<close>

text \<open>The body of \<open>if(xQueueReceive(entryQueue, ...) == pdTRUE)\<close>, lines 448 to 499.\<close>

definition gate_entry :: "sys \<Rightarrow> sys" where
  "gate_entry = seq [
     xSemaphoreTake slotsMutex,
     rd_availableSlots (\<lambda>a. if a > 0 then seq [
         rd_availableSlots (\<lambda>a s.
           Serial_print ''[Gate] ENTRY - Slots: %d/%d'' [AInt a, AInt (TOTAL_SLOTS s)] s),
         xSemaphoreGive slotsMutex,
         xSemaphoreTake gateStatusMutex,
         set_gateStatus ''Open'',
         xSemaphoreGive gateStatusMutex,
         xQueueSend_lcd \<lparr>line1 = ''Gate: OPEN'', line2 = ''Entering...''\<rparr>,
         Serial_print ''  Opening barrier (0 degrees)...'' [],
         barrierServo_write 0,
         Serial_print ''  Waiting 2 seconds for car passage...'' [],
         vTaskDelay 2000,
         Serial_print ''  Closing barrier (90 degrees)...'' [],
         barrierServo_write 90,
         xSemaphoreTake gateStatusMutex,
         set_gateStatus ''Closed'',
         xSemaphoreGive gateStatusMutex,
         xSemaphoreTake slotsMutex,
         rd_availableSlots (\<lambda>a. set_availableSlots (a - 1)),
         rd_availableSlots (\<lambda>a s.
           Serial_print ''  Entry complete! New slots: %d/%d'' [AInt a, AInt (TOTAL_SLOTS s)] s),
         rd_availableSlots (\<lambda>a. if a = 0 then Serial_print ''  PARKING NOW FULL!'' [] else id),
         xSemaphoreGive slotsMutex,
         Serial_print [] []]
       else seq [
         Serial_print ''[Gate] PARKING FULL - Entry DENIED!'' [],
         xSemaphoreGive slotsMutex])]"

text \<open>The body of \<open>if(xQueueReceive(exitQueue, ...) == pdTRUE)\<close>, lines 504 to 543.\<close>

definition gate_exit :: "sys \<Rightarrow> sys" where
  "gate_exit = seq [
     Serial_print ''[Gate] EXIT PROCESSING'' [],
     xSemaphoreTake gateStatusMutex,
     set_gateStatus ''Open'',
     xSemaphoreGive gateStatusMutex,
     xQueueSend_lcd \<lparr>line1 = ''Gate: OPEN'', line2 = ''Exiting...''\<rparr>,
     Serial_print ''  Opening barrier (0 degrees)...'' [],
     barrierServo_write 0,
     Serial_print ''  Waiting 2 seconds...'' [],
     vTaskDelay 2000,
     Serial_print ''  Closing barrier (90 degrees)...'' [],
     barrierServo_write 90,
     xSemaphoreTake gateStatusMutex,
     set_gateStatus ''Closed'',
     xSemaphoreGive gateStatusMutex,
     xSemaphoreTake slotsMutex,
     rd_availableSlots (\<lambda>a s. if a < TOTAL_SLOTS s then seq [
         rd_availableSlots (\<lambda>a. set_availableSlots (a + 1)),
         rd_availableSlots (\<lambda>a s.
           Serial_print ''  Exit complete! New slots: %d/%d'' [AInt a, AInt (TOTAL_SLOTS s)] s)] s
       else s),
     xSemaphoreGive slotsMutex,
     Serial_print [] []]"

text \<open>
  The two receive blocks: \<open>xQueueReceive\<close> takes the oldest event of the queue when there
  is one. The event's fields are not looked at; the queue it came from decides the branch.
\<close>

definition entry_block :: "sys \<Rightarrow> sys" where
  "entry_block s =
     (case entryQueue s of [] \<Rightarrow> s | event # rest \<Rightarrow> gate_entry (s\<lparr>entryQueue := rest\<rparr>))"

definition exit_block :: "sys \<Rightarrow> sys" where
  "exit_block s =
     (case exitQueue s of [] \<Rightarrow> s | event # rest \<Rightarrow> gate_exit (s\<lparr>exitQueue := rest\<rparr>))"

text \<open>One turn of the \<open>while(1)\<close> loop of \<open>gateTask\<close>.\<close>

definition gateTask_iter :: "sys \<Rightarrow> sys" where
  "gateTask_iter = seq [entry_block, exit_block, vTaskDelay 10]"

section \<open>ledTask\<close>

definition GREEN_LED_PIN :: nat where
  "GREEN_LED_PIN = 26"

definition RED_LED_PIN :: nat where
  "RED_LED_PIN = 27"

text \<open>\<open>digitalWrite(pin, level)\<close>, with \<open>True\<close> for \<open>HIGH\<close>.\<close>

definition digitalWrite :: "nat \<Rightarrow> bool \<Rightarrow> sys \<Rightarrow> sys" where
  "digitalWrite pin high = emit (DigitalWrite pin high)"

definition ledTask_iter :: "sys \<Rightarrow> sys" where
  "ledTask_iter = seq [
     xSemaphoreTake slotsMutex,
     rd_availableSlots (\<lambda>a. digitalWrite GREEN_LED_PIN (if a > 0 then True else False)),
     rd_availableSlots (\<lambda>a. digitalWrite RED_LED_PIN (if a > 0 then False else True)),
     xSemaphoreGive slotsMutex,
     vTaskDelay 100]"

section \<open>dhtTask\<close>

text \<open>
  One turn of the loop of \<open>dhtTask\<close>; \<open>h\<close> and \<open>t\<close> are what \<open>dht.readHumidity()\<close> and
  \<open>dht.readTemperature()\<close> returned. \<open>dt\<close> is the outcome of \<open>abs(t - lastTemp) > 0.5\<close> and
  \<open>dh\<close> that of \<open>abs(h - lastHum) > 2.0\<close>, as the floating-point unit evaluates them;
  they decide whether the reading is logged.
\<close>

definition dhtTask_iter :: "cfloat \<Rightarrow> cfloat \<Rightarrow> bool \<Rightarrow> bool \<Rightarrow> sys \<Rightarrow> sys" where
  "dhtTask_iter h t dt dh = seq [
     (if \<not> isnan h \<and> \<not> isnan t then seq [
         xSemaphoreTake dhtMutex,
         set_temperature t,
         set_humidity h,
         xSemaphoreGive dhtMutex,
         (\<lambda>s. if firstReading s \<or> dt \<or> dh
               then seq [
                 Serial_print ''[DHT] Temp: %.1fC | Humidity: %.1f%%'' [AFloat t, AFloat h],
                 (\<lambda>s. s\<lparr>lastTemp := t\<rparr>),
                 (\<lambda>s. s\<lparr>lastHum := h\<rparr>),
                 (\<lambda>s. s\<lparr>firstReading := False\<rparr>)] s
               else s)]
      else Serial_print ''[DHT] Invalid reading - check wiring'' []),
     vTaskDelay 2000]"

section \<open>sensorTask\<close>

datatype level = LOW | HIGH

text \<open>\<open>xQueueCreate(5, ...)\<close> for both event queues; a send to a full queue is dropped.\<close>

definition xQueueSend_entry :: "SystemEvent \<Rightarrow> sys \<Rightarrow> sys" where
  "xQueueSend_entry e s =
     emit (SendEntry e)
       (s\<lparr>entryQueue := (if length (entryQueue s) < 5 then entryQueue s @ [e] else entryQueue s)\<rparr>)"

definition xQueueSend_exit :: "SystemEvent \<Rightarrow> sys \<Rightarrow> sys" where
  "xQueueSend_exit e s =
     emit (SendExit e)
       (s\<lparr>exitQueue := (if length (exitQueue s) < 5 then exitQueue s @ [e] else exitQueue s)\<rparr>)"

text \<open>
  One turn of the loop of \<open>sensorTask\<close>; \<open>e1\<close>, \<open>e2\<close> are its two reads of the entry pin,
  \<open>x1\<close>, \<open>x2\<close> its two reads of the exit pin.
\<close>

definition sensorTask_iter :: "level \<Rightarrow> level \<Rightarrow> level \<Rightarrow> level \<Rightarrow> sys \<Rightarrow> sys" where
  "sensorTask_iter e1 e2 x1 x2 = seq [
     (\<lambda>s. if e1 = LOW \<and> \<not> entryDetected s then seq [
         (\<lambda>s. s\<lparr>entryDetected := True\<rparr>),
         xQueueSend_entry \<lparr>ev_type = EVENT_CAR_ENTRY, ev_value = 1\<rparr>,
         Serial_print ''[Sensor] CAR DETECTED AT ENTRY!'' [],
         vTaskDelay 100] s
       else s),
     (if e2 = HIGH then (\<lambda>s. s\<lparr>entryDetected := False\<rparr>) else id),
     (\<lambda>s. if x1 = LOW \<and> \<not> exitDetected s then seq [
         (\<lambda>s. s\<lparr>exitDetected := True\<rparr>),
         xQueueSend_exit \<lparr>ev_type = EVENT_CAR_EXIT, ev_value = 1\<rparr>,
         Serial_print ''[Sensor] CAR DETECTED AT EXIT!'' [],
         vTaskDelay 100] s
       else s),
     (if x2 = HIGH then (\<lambda>s. s\<lparr>exitDetected := False\<rparr>) else id),
     vTaskDelay 50]"

section \<open>wifiTask\<close>

text \<open>
  \<open>checkInternetConnection\<close>: \<open>link\<close> is \<open>WiFi.status() == WL_CONNECTED\<close>, \<open>httpCode\<close> the
  answer of the probe.
\<close>

definition checkInternetConnection :: "bool \<Rightarrow> int \<Rightarrow> bool" where
  "checkInternetConnection link httpCode = (if \<not> link then False else httpCode = 204)"

text \<open>
  One turn of the loop of \<open>wifiTask\<close>. \<open>now\<close> is \<open>millis()\<close> (\<open>unsigned long\<close>, 32 bits on
  the ESP32), \<open>link\<close> and \<open>link2\<close> the link status as the task and as the probe see it,
  \<open>newTime\<close> and \<open>newDate\<close> what \<open>getCurrentTime()\<close> and \<open>getCurrentDate()\<close> return, \<open>ok\<close>
  whether \<open>timeMutex\<close> was obtained within 100 ms.
\<close>

definition wifiTask_iter ::
  "32 word \<Rightarrow> bool \<Rightarrow> bool \<Rightarrow> int \<Rightarrow> string \<Rightarrow> string \<Rightarrow> bool \<Rightarrow> sys \<Rightarrow> sys" where
  "wifiTask_iter now link link2 httpCode newTime newDate ok = seq [
     (\<lambda>s. if 10000 \<le> now - lastWiFiCheck s then seq [
         rd_wifiConnected (\<lambda>prevWiFi. seq [
           set_wifiConnected link,
           rd_wifiConnected (\<lambda>w. if w \<noteq> prevWiFi then
               rd_wifiConnected (\<lambda>w. if w then Serial_print ''[WiFi] Connected!'' []
                 else seq [Serial_print ''[WiFi] Disconnected! Reconnecting...'' [],
                           emit WiFiReconnect])
             else id)]),
         rd_wifiConnected (\<lambda>w. if w
           then set_internetConnected (checkInternetConnection link2 httpCode)
           else set_internetConnected False),
         (\<lambda>s. s\<lparr>lastWiFiCheck := now\<rparr>)] s
       else s),
     (\<lambda>s. if 5000 \<le> now - lastTimeUpdate s then seq [
         rd_wifiConnected (\<lambda>w. if w
           then xSemaphoreTake_timed ok timeMutex [
                  set_currentTime newTime,
                  set_currentDate newDate,
                  xSemaphoreGive timeMutex]
           else id),
         (\<lambda>s. s\<lparr>lastTimeUpdate := now\<rparr>)] s
       else s),
     vTaskDelay 1000]"

section \<open>lcdTask\<close>

definition lcd_print :: "arg list \<Rightarrow> sys \<Rightarrow> sys" where
  "lcd_print x = emit (LcdPrint x)"

text \<open>\<open>pdMS_TO_TICKS(500)\<close> at the 1 kHz tick of the Arduino core.\<close>

definition updateInterval :: "32 word" where
  "updateInterval = 500"

text \<open>
  One turn of the loop of \<open>lcdTask\<close>. \<open>tick\<close> is \<open>xTaskGetTickCount()\<close> in the condition of
  the \<open>else if\<close>, \<open>tick'\<close> its value when \<open>lastUpdate\<close> is assigned, \<open>ok\<close> whether \<open>timeMutex\<close>
  was obtained within 50 ms.
\<close>

definition lcdTask_iter :: "32 word \<Rightarrow> 32 word \<Rightarrow> bool \<Rightarrow> sys \<Rightarrow> sys" where
  "lcdTask_iter tick tick' ok = seq [
     (\<lambda>s. case lcdQueue s of
        m # rest \<Rightarrow> seq [
          (\<lambda>s. s\<lparr>lcdQueue := rest\<rparr>),
          xSemaphoreTake lcdMutex,
          emit LcdClear,
          emit (LcdSetCursor 0 0),
          lcd_print [AStr (line1 m)],
          emit (LcdSetCursor 0 1),
          lcd_print [AStr (line2 m)],
          xSemaphoreGive lcdMutex,
          (\<lambda>s. s\<lparr>lastUpdate := tick'\<rparr>)] s
      | [] \<Rightarrow>
          if updateInterval \<le> tick - lastUpdate s then seq [
            xSemaphoreTake lcdMutex,
            emit LcdClear,
            emit (LcdSetCursor 0 0),
            (\<lambda>s. s\<lparr>timeStr := []\<rparr>),
            xSemaphoreTake_timed ok timeMutex [
              rd_currentTime (\<lambda>c s. s\<lparr>timeStr := c\<rparr>),
              xSemaphoreGive timeMutex],
            (\<lambda>s. lcd_print [AStr (timeStr s)] s),
            lcd_print [AStr '' ''],
            xSemaphoreTake slotsMutex,
            rd_availableSlots (\<lambda>a. lcd_print [AInt a]),
            xSemaphoreGive slotsMutex,
            lcd_print [AStr ''/''],
            (\<lambda>s. lcd_print [AInt (TOTAL_SLOTS s)] s),
            emit (LcdSetCursor 0 1),
            lcd_print [AStr ''Gate:''],
            xSemaphoreTake gateStatusMutex,
            rd_gateStatus (\<lambda>g. lcd_print [AStr g]),
            xSemaphoreGive gateStatusMutex,
            xSemaphoreGive lcdMutex,
            (\<lambda>s. s\<lparr>lastUpdate := tick'\<rparr>)] s
          else s),
     vTaskDelay 50]"

section \<open>webServerTask and handleData\<close>

definition json_set :: "arg list \<Rightarrow> sys \<Rightarrow> sys" where
  "json_set x s = s\<lparr>json := x\<rparr>"

definition json_add :: "arg list \<Rightarrow> sys \<Rightarrow> sys" where
  "json_add x s = s\<lparr>json := json s @ x\<rparr>"

definition server_send :: "nat \<Rightarrow> string \<Rightarrow> arg list \<Rightarrow> sys \<Rightarrow> sys" where
  "server_send code ctype body = emit (ServerSend code ctype body)"

text \<open>\<open>millis() / 1000\<close> on \<open>unsigned long\<close>.\<close>

definition uptime :: "32 word \<Rightarrow> 32 word" where
  "uptime m = m div 1000"

text \<open>
  \<open>handleData\<close>; \<open>m\<close> is what \<open>millis()\<close> returns, \<open>ok\<close> whether \<open>timeMutex\<close> was obtained
  within 50 ms.
\<close>

definition handleData :: "32 word \<Rightarrow> bool \<Rightarrow> sys \<Rightarrow> sys" where
  \<open>handleData m ok = seq [
     json_set [AStr ''{''],
     xSemaphoreTake slotsMutex,
     rd_availableSlots (\<lambda>a. json_add [AStr ''"available":'', AInt a, AStr '','']),
     rd_availableSlots (\<lambda>a s. json_add [AStr ''"occupied":'', AInt (TOTAL_SLOTS s - a), AStr '',''] s),
     xSemaphoreGive slotsMutex,
     xSemaphoreTake gateStatusMutex,
     rd_gateStatus (\<lambda>g. json_add [AStr ''"gate":"'', AStr g, AStr ''",'']),
     xSemaphoreGive gateStatusMutex,
     xSemaphoreTake dhtMutex,
     rd_temperature (\<lambda>x. json_add [AStr ''"temperature":'', AFloat x, AStr '','']),
     rd_humidity (\<lambda>x. json_add [AStr ''"humidity":'', AFloat x, AStr '','']),
     xSemaphoreGive dhtMutex,
     xSemaphoreTake_timed ok timeMutex [
       rd_currentTime (\<lambda>c. json_add [AStr ''"time":"'', AStr c, AStr ''",'']),
       rd_currentDate (\<lambda>c. json_add [AStr ''"date":"'', AStr c, AStr ''",'']),
       xSemaphoreGive timeMutex],
     rd_wifiConnected (\<lambda>w.
       json_add [AStr ''"wifi":'', AStr (if w then ''true'' else ''false''), AStr '','']),
     rd_internetConnected (\<lambda>w.
       json_add [AStr ''"internet":'', AStr (if w then ''true'' else ''false''), AStr '','']),
     json_add [AStr ''"uptime":'', AWord (uptime m)],
     json_add [AStr ''}''],
     (\<lambda>s. server_send 200 ''application/json'' (json s) s)]\<close>

datatype request = GET_root | GET_data

text \<open>
  One turn of the loop of \<open>webServerTask\<close>: \<open>server.handleClient()\<close> serves the pending
  request, when there is one, through the route registered for it in \<open>setup\<close>. The page of
  \<open>getHTML\<close> is a constant text.
\<close>

definition webServerTask_iter :: "request option \<Rightarrow> 32 word \<Rightarrow> bool \<Rightarrow> sys \<Rightarrow> sys" where
  "webServerTask_iter req m ok = seq [
     (case req of
        None \<Rightarrow> id
      | Some GET_root \<Rightarrow> server_send 200 ''text/html'' [AStr ''getHTML()'']
      | Some GET_data \<Rightarrow> handleData m ok),
     vTaskDelay 10]"

section \<open>telegramTask\<close>

definition msg_set :: "arg list \<Rightarrow> sys \<Rightarrow> sys" where
  "msg_set x s = s\<lparr>msg := x\<rparr>"

definition msg_add :: "arg list \<Rightarrow> sys \<Rightarrow> sys" where
  "msg_add x s = s\<lparr>msg := msg s @ x\<rparr>"

definition bot_sendMessage :: "string \<Rightarrow> sys \<Rightarrow> sys" where
  "bot_sendMessage chat_id s = emit (BotSend chat_id (msg s)) s"

text \<open>
  The body of the \<open>for\<close> loop of \<open>telegramTask\<close> for one received message; \<open>ok\<close> is whether
  \<open>timeMutex\<close> was obtained within 50 ms. The emoji and line breaks of the string literals
  are left out.
\<close>

definition handle_message :: "string \<Rightarrow> string \<Rightarrow> bool \<Rightarrow> sys \<Rightarrow> sys" where
  "handle_message chat_id text ok = seq [
     Serial_print ''[Telegram] Received command: %s'' [AStr text],
     (if text = ''/start'' then seq [
        msg_set [AStr ''*FreeRTOS Parking System*''],
        msg_add [AStr ''Available Commands:''],
        msg_add [AStr ''/status - Parking status''],
        msg_add [AStr ''/time - Date & Time''],
        msg_add [AStr ''/temp - Temperature''],
        msg_add [AStr ''/all - Complete info''],
        bot_sendMessage chat_id]
      else if text = ''/status'' then seq [
        msg_set [AStr ''*Parking Status*''],
        xSemaphoreTake slotsMutex,
        rd_availableSlots (\<lambda>a s.
          msg_add [AStr ''Available: '', AInt a, AStr ''/'', AInt (TOTAL_SLOTS s)] s),
        rd_availableSlots (\<lambda>a. if a = 0 then msg_add [AStr '' FULL''] else msg_add [AStr '' '']),
        xSemaphoreGive slotsMutex,
        bot_sendMessage chat_id]
      else if text = ''/time'' then seq [
        msg_set [AStr ''*Date & Time*''],
        xSemaphoreTake_timed ok timeMutex [
          rd_currentDate (\<lambda>d. msg_add [AStr '' '', AStr d]),
          rd_currentTime (\<lambda>c. msg_add [AStr '' '', AStr c]),
          xSemaphoreGive timeMutex],
        bot_sendMessage chat_id]
      else if text = ''/temp'' then seq [
        msg_set [AStr ''*Environment*''],
        xSemaphoreTake dhtMutex,
        rd_temperature (\<lambda>x. msg_add [AStr ''Temperature: '', AFloat x, AStr ''C'']),
        rd_humidity (\<lambda>x. msg_add [AStr ''Humidity: '', AFloat x, AStr ''%'']),
        xSemaphoreGive dhtMutex,
        bot_sendMessage chat_id]
      else if text = ''/all'' then seq [
        msg_set [AStr ''*Complete Status*''],
        xSemaphoreTake_timed ok timeMutex [
          rd_currentDate (\<lambda>d. rd_currentTime (\<lambda>c. msg_add [AStr '' '', AStr d, AStr '' '', AStr c])),
          xSemaphoreGive timeMutex],
        xSemaphoreTake slotsMutex,
        rd_availableSlots (\<lambda>a s.
          msg_add [AStr '' Parking: '', AInt a, AStr ''/'', AInt (TOTAL_SLOTS s)] s),
        xSemaphoreGive slotsMutex,
        xSemaphoreTake dhtMutex,
        rd_temperature (\<lambda>x. msg_add [AStr '' Temp: '', AFloat x, AStr ''C'']),
        rd_humidity (\<lambda>x. msg_add [AStr '' Humidity: '', AFloat x, AStr ''%'']),
        xSemaphoreGive dhtMutex,
        bot_sendMessage chat_id]
      else id)]"

text \<open>
  One turn of the loop of \<open>telegramTask\<close>: the messages \<open>bot.getUpdates\<close> delivered, each
  with its chat id, its text and the outcome of its timed take, then the delay.
\<close>

fun handle_messages :: "(string \<times> string \<times> bool) list \<Rightarrow> sys \<Rightarrow> sys" where
  "handle_messages [] s = s"
| "handle_messages ((chat_id, text, ok) # ms) s =
     handle_messages ms (handle_message chat_id text ok s)"

definition telegramTask_iter :: "(string \<times> string \<times> bool) list \<Rightarrow> sys \<Rightarrow> sys" where
  "telegramTask_iter ms = seq [handle_messages ms, vTaskDelay 1000]"

section \<open>The system: any worker takes the next turn\<close>

datatype operation =
    Op_wifi "32 word" bool bool int string string bool
  | Op_sensor level level level level
  | Op_gate
  | Op_led
  | Op_dht cfloat cfloat bool bool
  | Op_lcd "32 word" "32 word" bool
  | Op_web "request option" "32 word" bool
  | Op_telegram "(string \<times> string \<times> bool) list"

fun step :: "operation \<Rightarrow> sys \<Rightarrow> sys" where
  "step (Op_wifi now link link2 httpCode newTime newDate ok) =
     wifiTask_iter now link link2 httpCode newTime newDate ok"
| "step (Op_sensor e1 e2 x1 x2) = sensorTask_iter e1 e2 x1 x2"
| "step Op_gate = gateTask_iter"
| "step Op_led = ledTask_iter"
| "step (Op_dht h t dt dh) = dhtTask_iter h t dt dh"
| "step (Op_lcd tick tick' ok) = lcdTask_iter tick tick' ok"
| "step (Op_web req m ok) = webServerTask_iter req m ok"
| "step (Op_telegram ms) = telegramTask_iter ms"

fun run :: "operation list \<Rightarrow> sys \<Rightarrow> sys" where
  "run [] s = s"
| "run (op # ops) s = run ops (step op s)"

section \<open>Reading a trace\<close>

fun servo_cmds :: "action list \<Rightarrow> int list" where
  "servo_cmds [] = []"
| "servo_cmds (ServoWrite a # as) = a # servo_cmds as"
| "servo_cmds (_ # as) = servo_cmds as"

fun lcd_sends :: "action list \<Rightarrow> LCDMessage list" where
  "lcd_sends [] = []"
| "lcd_sends (SendLcd m # as) = m # lcd_sends as"
| "lcd_sends (_ # as) = lcd_sends as"

text \<open>The variable an action reads or writes, and the variable it writes.\<close>

fun accessed :: "action \<Rightarrow> var option" where
  "accessed (Read v) = Some v"
| "accessed (Write v x) = Some v"
| "accessed _ = None"

fun written :: "action \<Rightarrow> var option" where
  "written (Write v x) = Some v"
| "written _ = None"

definition writes :: "action list \<Rightarrow> var list" where
  "writes tr = List.map_filter written tr"

text \<open>The value an action gives to \<open>gateStatus\<close>, and the values a trace gives it, in order.\<close>

fun phase_written :: "action \<Rightarrow> string option" where
  "phase_written (Write v x) =
     (case v of V_gateStatus \<Rightarrow> (case x of AStr p \<Rightarrow> Some p | _ \<Rightarrow> None) | _ \<Rightarrow> None)"
| "phase_written _ = None"

definition phase_writes :: "action list \<Rightarrow> string list" where
  "phase_writes tr = List.map_filter phase_written tr"


text \<open>
  The course of one gate transaction: phase changes, barrier commands, delays and changes
  of the counter, without the mutex operations, reads, display messages and log lines.
\<close>

fun gate_relevant :: "action \<Rightarrow> bool" where
  "gate_relevant (ServoWrite a) = True"
| "gate_relevant (Delay d) = True"
| "gate_relevant (Write v x) = (v = V_gateStatus \<or> v = V_availableSlots)"
| "gate_relevant _ = False"

definition gate_timeline :: "action list \<Rightarrow> action list" where
  "gate_timeline tr = filter gate_relevant tr"

text \<open>The mutexes a task holds, most recent first, as its trace takes and gives them.\<close>

fun held_step :: "action \<Rightarrow> mutex list \<Rightarrow> mutex list" where
  "held_step (Take m) h = m # h"
| "held_step (Give m) h = remove1 m h"
| "held_step _ h = h"

fun held_after :: "mutex list \<Rightarrow> action list \<Rightarrow> mutex list" where
  "held_after h [] = h"
| "held_after h (a # as) = held_after (held_step a h) as"

text \<open>\<open>P\<close> holds of the held mutexes before, between and after the actions of a trace.\<close>

fun always_held :: "(mutex list \<Rightarrow> bool) \<Rightarrow> mutex list \<Rightarrow> action list \<Rightarrow> bool" where
  "always_held P h [] = P h"
| "always_held P h (a # as) = (P h \<and> always_held P (held_step a h) as)"

definition at_most_one :: "mutex list \<Rightarrow> bool" where
  "at_most_one h = (length h \<le> 1)"

text \<open>
  The nesting the display task uses: nothing held, one mutex held, or one of the four
  mutexes of the shared variables taken while \<open>lcdMutex\<close> is held.
\<close>

fun under_lcd_only :: "mutex list \<Rightarrow> bool" where
  "under_lcd_only [] = True"
| "under_lcd_only [m] = True"
| "under_lcd_only [m, m'] = (m' = lcdMutex \<and> m \<noteq> lcdMutex)"
| "under_lcd_only _ = False"

text \<open>The shared variables a trace reads or writes while the task holds no mutex at all.\<close>

fun unlocked_accesses :: "mutex list \<Rightarrow> action list \<Rightarrow> var list" where
  "unlocked_accesses h [] = []"
| "unlocked_accesses h (a # as) =
     (case accessed a of
        Some v \<Rightarrow> (if h = [] then v # unlocked_accesses (held_step a h) as
                   else unlocked_accesses (held_step a h) as)
      | None \<Rightarrow> unlocked_accesses (held_step a h) as)"

text \<open>
  The mutex the code takes around each shared variable. Five mutexes are created in
  \<open>setup\<close>; \<open>lcdMutex\<close> guards the display, and none is taken around the two flags.
\<close>

fun guard :: "var \<Rightarrow> mutex option" where
  "guard V_availableSlots = Some slotsMutex"
| "guard V_gateStatus = Some gateStatusMutex"
| "guard V_temperature = Some dhtMutex"
| "guard V_humidity = Some dhtMutex"
| "guard V_currentTime = Some timeMutex"
| "guard V_currentDate = Some timeMutex"
| "guard V_wifiConnected = None"
| "guard V_internetConnected = None"

text \<open>
  The mutexes of the shared state are those that guard a shared variable. \<open>lcdMutex\<close> is
  not one of them: it guards the display panel, which only \<open>lcdTask\<close> drives.
\<close>

fun state_mutex :: "mutex \<Rightarrow> bool" where
  "state_mutex slotsMutex = True"
| "state_mutex gateStatusMutex = True"
| "state_mutex dhtMutex = True"
| "state_mutex timeMutex = True"
| "state_mutex lcdMutex = False"

definition one_state_mutex :: "mutex list \<Rightarrow> bool" where
  "one_state_mutex h = (length (filter state_mutex h) \<le> 1)"

text \<open>The mutex operations of a trace.\<close>

fun is_mutex_op :: "action \<Rightarrow> bool" where
  "is_mutex_op (Take m) = True"
| "is_mutex_op (TakeTimeout m) = True"
| "is_mutex_op (Give m) = True"
| "is_mutex_op _ = False"

definition mutex_ops :: "action list \<Rightarrow> action list" where
  "mutex_ops tr = filter is_mutex_op tr"

text \<open>Every access to a variable that has a guard is made while holding it.\<close>

fun well_guarded :: "mutex list \<Rightarrow> action list \<Rightarrow> bool" where
  "well_guarded h [] = True"
| "well_guarded h (a # as) =
     ((case accessed a of
         None \<Rightarrow> True
       | Some v \<Rightarrow> (case guard v of None \<Rightarrow> True | Some m \<Rightarrow> m \<in> set h))
      \<and> well_guarded (held_step a h) as)"

text \<open>
  \<open>millis()\<close> of the Arduino core for the ESP32: the milliseconds since boot, as an
  \<open>unsigned long\<close> of 32 bits. \<open>t\<close> is the true number of milliseconds since boot.
\<close>

definition millis :: "nat \<Rightarrow> 32 word" where
  "millis t = word_of_nat t"

text \<open>
  A trace keeps to \<open>P\<close>: \<open>P\<close> holds of the held mutexes throughout, starting with none
  held, and every mutex taken has been given back at the end.
\<close>

definition disciplined :: "(mutex list \<Rightarrow> bool) \<Rightarrow> action list \<Rightarrow> bool" where
  "disciplined P tr = (always_held P [] tr \<and> held_after [] tr = [])"

fun is_lcd_op :: "operation \<Rightarrow> bool" where
  "is_lcd_op (Op_lcd tick tick' ok) = True"
| "is_lcd_op _ = False"

text \<open>
  The events \<open>gateTask\<close> handles, in the order it receives them: each is named by the queue
  it was received from, which is all the task looks at.
\<close>

datatype source = From_entryQueue | From_exitQueue

fun received :: "source \<Rightarrow> sys \<Rightarrow> sys" where
  "received From_entryQueue = gate_entry"
| "received From_exitQueue = gate_exit"

fun process :: "source list \<Rightarrow> sys \<Rightarrow> sys" where
  "process [] s = s"
| "process (e # es) s = process es (received e s)"


text \<open>
  A statement is orderly when it only appends to the trace, what it appends keeps to \<open>P\<close>,
  and every guarded variable it touches is touched under its guard.
\<close>

definition orderly :: "(mutex list \<Rightarrow> bool) \<Rightarrow> (sys \<Rightarrow> sys) \<Rightarrow> bool" where
  "orderly P f =
     (\<forall>s. trace (f s) = trace s @ effects f s
        \<and> disciplined P (effects f s) \<and> well_guarded [] (effects f s))"

text \<open>A statement that leaves the lot size, the counter and the gate status alone.\<close>

definition keeps_gate :: "(sys \<Rightarrow> sys) \<Rightarrow> bool" where
  "keeps_gate f =
     (\<forall>s. TOTAL_SLOTS (f s) = TOTAL_SLOTS s \<and> availableSlots (f s) = availableSlots s
        \<and> gateStatus (f s) = gateStatus s)"

text \<open>The counter is within the lot, and the gate is closed.\<close>

definition in_range :: "sys \<Rightarrow> bool" where
  "in_range s = (0 \<le> availableSlots s \<and> availableSlots s \<le> TOTAL_SLOTS s)"

definition gate_closed :: "sys \<Rightarrow> bool" where
  "gate_closed s = (gateStatus s = ''Closed'')"

section \<open>Properties of the gate controller\<close>

lemmas prim_defs =
  emit_def xSemaphoreTake_def xSemaphoreGive_def xSemaphoreTake_timed_def vTaskDelay_def
  Serial_print_def barrierServo_write_def xQueueSend_lcd_def
  rd_availableSlots_def set_availableSlots_def rd_gateStatus_def set_gateStatus_def

lemmas trace_defs = effects_def writes_def phase_writes_def gate_timeline_def List.map_filter_simps

lemma gate_entry_denied:
  "availableSlots s \<le> 0 \<Longrightarrow>
   gate_entry s = s\<lparr>trace := trace s @
     [Take slotsMutex, Read V_availableSlots,
      Serial ''[Gate] PARKING FULL - Entry DENIED!'' [], Give slotsMutex]\<rparr>"
  by (simp add: gate_entry_def prim_defs)

lemma gate_entry_admitted:
  "0 < availableSlots s \<Longrightarrow>
   gate_timeline (effects gate_entry s) =
     [Write V_gateStatus (AStr ''Open''), ServoWrite 0, Delay 2000, ServoWrite 90,
      Write V_gateStatus (AStr ''Closed''), Write V_availableSlots (AInt (availableSlots s - 1))]"
  by (simp add: gate_entry_def prim_defs trace_defs)

lemma gate_exit_timeline:
  "gate_timeline (effects gate_exit s) =
     [Write V_gateStatus (AStr ''Open''), ServoWrite 0, Delay 2000, ServoWrite 90,
      Write V_gateStatus (AStr ''Closed'')]
     @ (if availableSlots s < TOTAL_SLOTS s
        then [Write V_availableSlots (AInt (availableSlots s + 1))] else [])"
  by (simp add: gate_exit_def prim_defs trace_defs)

text \<open>
  C2. An entry event handled while \<open>availableSlots = 0\<close> is discarded: no barrier command,
  no message to the display queue, and the state is the state before, up to the trace, which
  gains the take and give of \<open>slotsMutex\<close>, the read of the counter and the denial log line.
\<close>

theorem C2_entry_denied_when_full:
  assumes "availableSlots s = 0"
  shows "servo_cmds (effects gate_entry s) = []
       \<and> lcd_sends (effects gate_entry s) = []
       \<and> availableSlots (gate_entry s) = availableSlots s
       \<and> gate_entry s\<lparr>trace := trace s\<rparr> = s
       \<and> effects gate_entry s =
           [Take slotsMutex, Read V_availableSlots,
            Serial ''[Gate] PARKING FULL - Entry DENIED!'' [], Give slotsMutex]"
  using assms by (simp add: gate_entry_denied effects_def)

theorem C2_entry_denied_when_full_witness:
  "availableSlots ((boot 4 False)\<lparr>availableSlots := 0\<rparr>) = 0
   \<and> servo_cmds (effects gate_entry ((boot 4 False)\<lparr>availableSlots := 0\<rparr>)) = []
   \<and> lcd_sends (effects gate_entry ((boot 4 False)\<lparr>availableSlots := 0\<rparr>)) = []
   \<and> availableSlots (gate_entry ((boot 4 False)\<lparr>availableSlots := 0\<rparr>)) = 0"
  using C2_entry_denied_when_full [of "(boot 4 False)\<lparr>availableSlots := 0\<rparr>"]
  by (simp add: boot_def)

text \<open>
  C3. An exit event opens the barrier, waits the dwell time and closes it, whatever the
  counter is: exactly one \<open>write(0)\<close> followed by one \<open>write(90)\<close>. After that the counter
  is incremented if and only if it is below \<open>TOTAL_SLOTS\<close>. With four slots and none
  available, one exit event leaves one available.
\<close>

theorem C3_exit_opens_then_counts:
  "servo_cmds (effects gate_exit s) = [0, 90]
   \<and> gate_timeline (effects gate_exit s) =
       [Write V_gateStatus (AStr ''Open''), ServoWrite 0, Delay 2000, ServoWrite 90,
        Write V_gateStatus (AStr ''Closed'')]
       @ (if availableSlots s < TOTAL_SLOTS s
          then [Write V_availableSlots (AInt (availableSlots s + 1))] else [])
   \<and> availableSlots (gate_exit s) =
       (if availableSlots s < TOTAL_SLOTS s then availableSlots s + 1 else availableSlots s)
   \<and> availableSlots (gate_exit ((boot 4 w)\<lparr>availableSlots := 0\<rparr>)) = 1
   \<and> servo_cmds (effects gate_exit ((boot 4 w)\<lparr>availableSlots := 0\<rparr>)) = [0, 90]"
proof -
  have a: "servo_cmds (effects gate_exit s) = [0, 90]" for s
    by (simp add: gate_exit_def prim_defs trace_defs)
  have b: "availableSlots (gate_exit s) =
       (if availableSlots s < TOTAL_SLOTS s then availableSlots s + 1 else availableSlots s)" for s
    by (simp add: gate_exit_def prim_defs)
  have c: "availableSlots (gate_exit ((boot 4 w)\<lparr>availableSlots := 0\<rparr>)) = 1"
    by (simp add: b boot_def)
  show ?thesis
    using a b c gate_exit_timeline by simp
qed

theorem C3_exit_opens_then_counts_witness:
  "availableSlots (gate_exit ((boot 4 True)\<lparr>availableSlots := 0\<rparr>)) = 1
   \<and> servo_cmds (effects gate_exit ((boot 4 True)\<lparr>availableSlots := 0\<rparr>)) = [0, 90]
   \<and> availableSlots (gate_exit (boot 4 True)) = 4"
  using C3_exit_opens_then_counts [of "boot 4 True" True]
  by (simp add: boot_def)

section \<open>Properties of the environmental sampler\<close>

lemmas dht_defs =
  dhtTask_iter_def emit_def xSemaphoreTake_def xSemaphoreGive_def vTaskDelay_def
  Serial_print_def set_temperature_def set_humidity_def

text \<open>
  C8. When the humidity or the temperature returned by the sensor is NaN, the stored
  temperature and humidity stay as they were, nothing is written, and the task logs the
  fault line. When neither is NaN, both stored values are overwritten with the sample, and
  the fault line is not logged.
\<close>

theorem C8_nan_sample_keeps_reading:
  "(isnan h \<or> isnan t \<longrightarrow>
      temperature (dhtTask_iter h t dt dh s) = temperature s
    \<and> humidity (dhtTask_iter h t dt dh s) = humidity s
    \<and> writes (effects (dhtTask_iter h t dt dh) s) = []
    \<and> effects (dhtTask_iter h t dt dh) s =
        [Serial ''[DHT] Invalid reading - check wiring'' [], Delay 2000])
   \<and> (\<not> isnan h \<and> \<not> isnan t \<longrightarrow>
      temperature (dhtTask_iter h t dt dh s) = t
    \<and> humidity (dhtTask_iter h t dt dh s) = h
    \<and> writes (effects (dhtTask_iter h t dt dh) s) = [V_temperature, V_humidity]
    \<and> Serial ''[DHT] Invalid reading - check wiring'' [] \<notin> set (effects (dhtTask_iter h t dt dh) s))"
proof (intro conjI impI)
  assume bad: "isnan h \<or> isnan t"
  then have eq: "dhtTask_iter h t dt dh s = s\<lparr>trace := trace s @
      [Serial ''[DHT] Invalid reading - check wiring'' [], Delay 2000]\<rparr>"
    by (auto simp add: dht_defs)
  show "temperature (dhtTask_iter h t dt dh s) = temperature s" by (simp add: eq)
  show "humidity (dhtTask_iter h t dt dh s) = humidity s" by (simp add: eq)
  show "writes (effects (dhtTask_iter h t dt dh) s) = []" by (simp add: eq trace_defs)
  show "effects (dhtTask_iter h t dt dh) s =
        [Serial ''[DHT] Invalid reading - check wiring'' [], Delay 2000]"
    by (simp add: eq effects_def)
next
  assume good: "\<not> isnan h \<and> \<not> isnan t"
  then show "temperature (dhtTask_iter h t dt dh s) = t" by (simp add: dht_defs)
  from good show "humidity (dhtTask_iter h t dt dh s) = h" by (simp add: dht_defs)
  from good show "writes (effects (dhtTask_iter h t dt dh) s) = [V_temperature, V_humidity]"
    by (simp add: dht_defs trace_defs)
  from good show
    "Serial ''[DHT] Invalid reading - check wiring'' [] \<notin> set (effects (dhtTask_iter h t dt dh) s)"
    by (simp add: dht_defs trace_defs)
qed

theorem C8_nan_sample_keeps_reading_witness:
  "isnan NaN
   \<and> temperature (dhtTask_iter NaN (Num 25) True False ((boot 4 False)\<lparr>temperature := Num 21.5\<rparr>)) = Num 21.5
   \<and> humidity (dhtTask_iter (Num 40) NaN False True ((boot 4 False)\<lparr>humidity := Num 55\<rparr>)) = Num 55
   \<and> \<not> isnan (Num 40) \<and> \<not> isnan (Num 25)
   \<and> temperature (dhtTask_iter (Num 40) (Num 25) False False (boot 4 False)) = Num 25
   \<and> humidity (dhtTask_iter (Num 40) (Num 25) False False (boot 4 False)) = Num 40"
  using C8_nan_sample_keeps_reading [of NaN "Num 25" True False "(boot 4 False)\<lparr>temperature := Num 21.5\<rparr>"]
    C8_nan_sample_keeps_reading [of "Num 40" NaN False True "(boot 4 False)\<lparr>humidity := Num 55\<rparr>"]
    C8_nan_sample_keeps_reading [of "Num 40" "Num 25" False False "boot 4 False"]
  by (simp add: isnan_def boot_def)

section \<open>Properties of the snapshot\<close>

lemmas snapshot_defs =
  handleData_def emit_def xSemaphoreTake_def xSemaphoreGive_def xSemaphoreTake_timed_def
  json_set_def json_add_def server_send_def
  rd_availableSlots_def rd_gateStatus_def rd_temperature_def rd_humidity_def
  rd_currentTime_def rd_currentDate_def rd_wifiConnected_def rd_internetConnected_def

lemma unat_uptime_millis: "unat (uptime (millis t)) = (t mod 2 ^ 32) div 1000"
  by (simp add: uptime_def millis_def unat_div unat_of_nat)

text \<open>
  C10. The last thing \<open>handleData\<close> does is send the JSON body it has built, and the last
  field of that body is \<open>uptime\<close>, which is
  \<open>millis() / 1000\<close> on 32-bit unsigned values: \<open>t\<close> milliseconds after boot it reads
  \<open>(t mod 2^32) div 1000\<close>. At \<open>2^32 - 1\<close> ms it is 4294967 and one millisecond later it is 0,
  so it is not monotonic; \<open>2^32\<close> ms lie between 49.7 and 49.8 days.
\<close>

theorem C10_uptime_wraps:
  "unat (uptime (millis t)) = (t mod 2 ^ 32) div 1000
   \<and> last (trace (handleData (millis t) ok s)) =
       ServerSend 200 ''application/json'' (json (handleData (millis t) ok s))
   \<and> take 3 (rev (json (handleData (millis t) ok s))) =
       [AStr ''}'', AWord (uptime (millis t)), AStr ''\"uptime\":'']
   \<and> unat (uptime (millis (2 ^ 32 - 1))) = 4294967
   \<and> unat (uptime (millis (2 ^ 32))) = 0
   \<and> \<not> mono (\<lambda>t. unat (uptime (millis t)))
   \<and> 497 * 8640000 \<le> (2::nat) ^ 32 \<and> (2::nat) ^ 32 < 498 * 8640000"
proof -
  have field: "take 3 (rev (json (handleData (millis t) ok s))) =
       [AStr ''}'', AWord (uptime (millis t)), AStr ''\"uptime\":'']"
    by (cases ok) (simp_all add: snapshot_defs)
  have sent: "last (trace (handleData (millis t) ok s)) =
       ServerSend 200 ''application/json'' (json (handleData (millis t) ok s))"
    by (cases ok) (simp_all add: snapshot_defs)
  have before: "unat (uptime (millis (2 ^ 32 - 1))) = 4294967"
    by (simp add: unat_uptime_millis)
  have after: "unat (uptime (millis (2 ^ 32))) = 0"
    by (simp add: unat_uptime_millis)
  have "\<not> mono (\<lambda>t. unat (uptime (millis t)))"
  proof
    assume "mono (\<lambda>t. unat (uptime (millis t)))"
    then have "unat (uptime (millis (2 ^ 32 - 1))) \<le> unat (uptime (millis (2 ^ 32)))"
      by (rule monoD) simp
    with before after show False by simp
  qed
  then show ?thesis
    using field sent before after unat_uptime_millis by simp
qed

theorem C10_uptime_wraps_witness:
  "unat (uptime (millis 4294967296)) = 0 \<and> unat (uptime (millis 4294967295)) = 4294967
   \<and> last (trace (handleData (millis 4294967296) True (boot 4 False))) =
       ServerSend 200 ''application/json'' (json (handleData (millis 4294967296) True (boot 4 False)))"
  using C10_uptime_wraps [of 4294967296 True "boot 4 False"]
    C10_uptime_wraps [of 4294967295 True "boot 4 False"]
  by simp

section \<open>Properties of the remote command handler\<close>

lemmas telegram_defs =
  handle_message_def emit_def xSemaphoreTake_def xSemaphoreGive_def xSemaphoreTake_timed_def
  Serial_print_def msg_set_def msg_add_def bot_sendMessage_def
  rd_availableSlots_def rd_temperature_def rd_humidity_def rd_currentTime_def rd_currentDate_def

lemma handle_message_frame:
  "handle_message chat_id text ok s\<lparr>trace := trace s, msg := msg s\<rparr> = s"
  by (simp add: telegram_defs)

lemma handle_message_trace:
  "trace (handle_message chat_id text ok s) = trace s @ effects (handle_message chat_id text ok) s"
  by (simp add: telegram_defs effects_def)

lemma handle_message_writes:
  "writes (effects (handle_message chat_id text ok) s) = []"
  by (simp add: telegram_defs trace_defs)

lemma writes_append: "writes (a @ b) = writes a @ writes b"
  by (simp add: writes_def List.map_filter_def)

lemma handle_messages_frame:
  "handle_messages ms s\<lparr>trace := trace s, msg := msg s\<rparr> = s"
proof (induction ms arbitrary: s)
  case Nil
  show ?case by simp
next
  case (Cons m ms)
  obtain chat_id cmd ok where m: "m = (chat_id, cmd, ok)"
    by (cases m) auto
  let ?s1 = "handle_message chat_id cmd ok s"
  let ?r = "handle_messages ms ?s1"
  have "?r\<lparr>trace := trace s, msg := msg s\<rparr>
        = (?r\<lparr>trace := trace ?s1, msg := msg ?s1\<rparr>)\<lparr>trace := trace s, msg := msg s\<rparr>"
    by simp
  also have "\<dots> = ?s1\<lparr>trace := trace s, msg := msg s\<rparr>"
    by (simp only: Cons.IH)
  also have "\<dots> = s"
    by (rule handle_message_frame)
  finally show ?case
    by (simp add: m)
qed

lemma handle_messages_trace:
  "\<exists>x. trace (handle_messages ms s) = trace s @ x \<and> writes x = []"
proof (induction ms arbitrary: s)
  case Nil
  show ?case by (simp add: writes_def List.map_filter_simps)
next
  case (Cons m ms)
  obtain chat_id cmd ok where m: "m = (chat_id, cmd, ok)"
    by (cases m) auto
  let ?s1 = "handle_message chat_id cmd ok s"
  from Cons.IH [of ?s1] obtain x where
    x: "trace (handle_messages ms ?s1) = trace ?s1 @ x" "writes x = []"
    by blast
  have "trace (handle_messages (m # ms) s)
        = trace s @ (effects (handle_message chat_id cmd ok) s @ x)"
    using x(1) handle_message_trace [of chat_id cmd ok s] by (simp add: m)
  moreover have "writes (effects (handle_message chat_id cmd ok) s @ x) = []"
    by (simp add: writes_append handle_message_writes x(2))
  ultimately show ?case
    by blast
qed

lemma telegramTask_iter_frame:
  "telegramTask_iter ms s\<lparr>trace := trace s, msg := msg s\<rparr> = s"
proof -
  have "telegramTask_iter ms s\<lparr>trace := trace s, msg := msg s\<rparr>
        = handle_messages ms s\<lparr>trace := trace s, msg := msg s\<rparr>"
    by (simp add: telegramTask_iter_def vTaskDelay_def emit_def)
  then show ?thesis
    by (simp only: handle_messages_frame)
qed

lemma telegramTask_iter_writes:
  "writes (effects (telegramTask_iter ms) s) = []"
proof -
  obtain x where x: "trace (handle_messages ms s) = trace s @ x" "writes x = []"
    using handle_messages_trace by blast
  have "effects (telegramTask_iter ms) s = x @ [Delay 1000]"
    by (simp add: telegramTask_iter_def vTaskDelay_def emit_def effects_def x(1))
  then show ?thesis
    by (simp add: writes_append x(2)) (simp add: writes_def List.map_filter_simps)
qed

text \<open>
  C9. Handling a message of the bot, whatever its text, changes nothing but the trace and
  the handler's local \<open>msg\<close>: the counter, the gate status, temperature and humidity, the
  cached time and date and the two connectivity flags are as before, and the trace holds
  no write to any of them. The same holds of a whole turn of \<open>telegramTask\<close> over any list
  of messages.
\<close>

theorem C9_commands_read_only:
  "handle_message chat_id text ok s\<lparr>trace := trace s, msg := msg s\<rparr> = s
   \<and> writes (effects (handle_message chat_id text ok) s) = []
   \<and> availableSlots (handle_message chat_id text ok s) = availableSlots s
   \<and> gateStatus (handle_message chat_id text ok s) = gateStatus s
   \<and> temperature (handle_message chat_id text ok s) = temperature s
   \<and> humidity (handle_message chat_id text ok s) = humidity s
   \<and> currentTime (handle_message chat_id text ok s) = currentTime s
   \<and> currentDate (handle_message chat_id text ok s) = currentDate s
   \<and> wifiConnected (handle_message chat_id text ok s) = wifiConnected s
   \<and> internetConnected (handle_message chat_id text ok s) = internetConnected s
   \<and> telegramTask_iter ms s\<lparr>trace := trace s, msg := msg s\<rparr> = s
   \<and> writes (effects (telegramTask_iter ms) s) = []"
proof -
  let ?s' = "handle_message chat_id text ok s"
  have fr: "?s'\<lparr>trace := trace s, msg := msg s\<rparr> = s"
    by (rule handle_message_frame)
  have "availableSlots ?s' = availableSlots (?s'\<lparr>trace := trace s, msg := msg s\<rparr>)"
    by simp
  then have f1: "availableSlots ?s' = availableSlots s"
    by (simp only: fr)
  have "gateStatus ?s' = gateStatus (?s'\<lparr>trace := trace s, msg := msg s\<rparr>)"
    by simp
  then have f2: "gateStatus ?s' = gateStatus s"
    by (simp only: fr)
  have "temperature ?s' = temperature (?s'\<lparr>trace := trace s, msg := msg s\<rparr>)"
    by simp
  then have f3: "temperature ?s' = temperature s"
    by (simp only: fr)
  have "humidity ?s' = humidity (?s'\<lparr>trace := trace s, msg := msg s\<rparr>)"
    by simp
  then have f4: "humidity ?s' = humidity s"
    by (simp only: fr)
  have "currentTime ?s' = currentTime (?s'\<lparr>trace := trace s, msg := msg s\<rparr>)"
    by simp
  then have f5: "currentTime ?s' = currentTime s"
    by (simp only: fr)
  have "currentDate ?s' = currentDate (?s'\<lparr>trace := trace s, msg := msg s\<rparr>)"
    by simp
  then have f6: "currentDate ?s' = currentDate s"
    by (simp only: fr)
  have "wifiConnected ?s' = wifiConnected (?s'\<lparr>trace := trace s, msg := msg s\<rparr>)"
    by simp
  then have f7: "wifiConnected ?s' = wifiConnected s"
    by (simp only: fr)
  have "internetConnected ?s' = internetConnected (?s'\<lparr>trace := trace s, msg := msg s\<rparr>)"
    by simp
  then have f8: "internetConnected ?s' = internetConnected s"
    by (simp only: fr)
  show ?thesis
    by (intro conjI fr handle_message_writes telegramTask_iter_frame
        telegramTask_iter_writes f1 f2 f3 f4 f5 f6 f7 f8)
qed

theorem C9_commands_read_only_witness:
  "availableSlots (handle_message ''42'' ''/status'' True (boot 4 False)) = 4
   \<and> gateStatus (handle_message ''42'' ''/open'' True (boot 4 False)) = ''Closed''
   \<and> writes (effects (telegramTask_iter [(''42'', ''/all'', True)]) (boot 4 False)) = []"
  using C9_commands_read_only [of "boot 4 False" "''42''" "''/status''" True "[(''42'', ''/all'', True)]"]
    C9_commands_read_only [of "boot 4 False" "''42''" "''/open''" True "[]"]
  by (simp add: boot_def)

section \<open>Mutex discipline of the workers\<close>

lemma held_after_append: "held_after h (a @ b) = held_after (held_after h a) b"
  by (induction a arbitrary: h) simp_all

lemma always_held_start: "always_held P h tr \<Longrightarrow> P h"
  by (cases tr) simp_all

lemma always_held_append:
  "always_held P h (a @ b) = (always_held P h a \<and> always_held P (held_after h a) b)"
  by (induction a arbitrary: h) (auto dest: always_held_start)

lemma always_held_weaken:
  "always_held P h tr \<Longrightarrow> (\<And>h. P h \<Longrightarrow> Q h) \<Longrightarrow> always_held Q h tr"
  by (induction tr arbitrary: h) simp_all

lemma well_guarded_append:
  "well_guarded h (a @ b) = (well_guarded h a \<and> well_guarded (held_after h a) b)"
  by (induction a arbitrary: h) simp_all

lemma disciplined_append:
  "disciplined P a \<Longrightarrow> disciplined P b \<Longrightarrow> disciplined P (a @ b)"
  by (simp add: disciplined_def always_held_append held_after_append)

lemma disciplined_weaken:
  "disciplined at_most_one tr \<Longrightarrow> disciplined under_lcd_only tr"
proof -
  have "under_lcd_only h" if "at_most_one h" for h
    using that by (cases h rule: under_lcd_only.cases) (simp_all add: at_most_one_def)
  then show "disciplined at_most_one tr \<Longrightarrow> disciplined under_lcd_only tr"
    unfolding disciplined_def using always_held_weaken by blast
qed

lemma effects_eqI: "trace (f s) = trace s @ x \<Longrightarrow> effects f s = x"
  by (simp add: effects_def)

lemma orderly_Nil: "P [] \<Longrightarrow> orderly P (seq [])"
  by (simp add: orderly_def effects_def disciplined_def)

lemma orderly_id: "P [] \<Longrightarrow> orderly P id"
  by (simp add: orderly_def effects_def disciplined_def)

lemma orderly_Cons:
  assumes f: "orderly P f" and fs: "orderly P (seq fs)"
  shows "orderly P (seq (f # fs))"
  unfolding orderly_def
proof (intro allI)
  fix s
  let ?a = "effects f s" and ?b = "effects (seq fs) (f s)"
  have a: "trace (f s) = trace s @ ?a" "disciplined P ?a" "well_guarded [] ?a"
    using f by (simp_all add: orderly_def)
  have b: "trace (seq fs (f s)) = trace (f s) @ ?b" "disciplined P ?b" "well_guarded [] ?b"
    using fs by (simp_all add: orderly_def)
  have t: "trace (seq (f # fs) s) = trace s @ (?a @ ?b)"
    using a(1) b(1) by simp
  then have e: "effects (seq (f # fs)) s = ?a @ ?b"
    by (rule effects_eqI)
  have "held_after [] ?a = []"
    using a(2) by (simp add: disciplined_def)
  then have "well_guarded [] (?a @ ?b)"
    using a(3) b(3) by (simp add: well_guarded_append)
  then show "trace (seq (f # fs) s) = trace s @ effects (seq (f # fs)) s
      \<and> disciplined P (effects (seq (f # fs)) s) \<and> well_guarded [] (effects (seq (f # fs)) s)"
    using t a(2) b(2) by (simp only: e disciplined_append simp_thms)
qed

lemma orderly_if: "orderly P f \<Longrightarrow> orderly P g \<Longrightarrow> orderly P (if c then f else g)"
  by simp

lemma orderly_weaken: "orderly at_most_one f \<Longrightarrow> orderly under_lcd_only f"
  by (simp add: orderly_def disciplined_weaken)

lemma keeps_gate_Nil: "keeps_gate (seq [])"
  by (simp add: keeps_gate_def)

lemma keeps_gate_id: "keeps_gate id"
  by (simp add: keeps_gate_def)

lemma keeps_gate_Cons: "keeps_gate f \<Longrightarrow> keeps_gate (seq fs) \<Longrightarrow> keeps_gate (seq (f # fs))"
  by (simp add: keeps_gate_def)

lemma keeps_gate_if: "keeps_gate f \<Longrightarrow> keeps_gate g \<Longrightarrow> keeps_gate (if c then f else g)"
  by simp

lemma seq_if: "seq fs (if c then a else b) = (if c then seq fs a else seq fs b)"
  by simp

lemmas all_prim_defs =
  prim_defs rd_temperature_def set_temperature_def rd_humidity_def set_humidity_def
  rd_currentTime_def set_currentTime_def rd_currentDate_def set_currentDate_def
  rd_wifiConnected_def set_wifiConnected_def rd_internetConnected_def set_internetConnected_def
  digitalWrite_def xQueueSend_entry_def xQueueSend_exit_def lcd_print_def
  json_set_def json_add_def server_send_def msg_set_def msg_add_def bot_sendMessage_def
  seq_if if_distribR

lemmas lock_defs = orderly_def effects_def disciplined_def at_most_one_def

text \<open>gateTask\<close>

lemma gate_entry_orderly: "orderly at_most_one gate_entry"
  by (simp add: gate_entry_def all_prim_defs lock_defs)

lemma gate_exit_orderly: "orderly at_most_one gate_exit"
  by (simp add: gate_exit_def all_prim_defs lock_defs)

lemma entry_block_orderly: "orderly at_most_one entry_block"
  unfolding orderly_def
proof (intro allI)
  fix s
  show "trace (entry_block s) = trace s @ effects entry_block s
      \<and> disciplined at_most_one (effects entry_block s)
      \<and> well_guarded [] (effects entry_block s)"
  proof (cases "entryQueue s")
    case Nil
    then show ?thesis
      by (simp add: entry_block_def effects_def disciplined_def at_most_one_def)
  next
    case (Cons e rest)
    have "effects entry_block s = effects gate_entry (s\<lparr>entryQueue := rest\<rparr>)"
      by (simp add: entry_block_def effects_def Cons)
    moreover have "trace (entry_block s) = trace (gate_entry (s\<lparr>entryQueue := rest\<rparr>))"
      by (simp add: entry_block_def Cons)
    ultimately show ?thesis
      using gate_entry_orderly [unfolded orderly_def, rule_format, of "s\<lparr>entryQueue := rest\<rparr>"]
      by simp
  qed
qed

lemma exit_block_orderly: "orderly at_most_one exit_block"
  unfolding orderly_def
proof (intro allI)
  fix s
  show "trace (exit_block s) = trace s @ effects exit_block s
      \<and> disciplined at_most_one (effects exit_block s)
      \<and> well_guarded [] (effects exit_block s)"
  proof (cases "exitQueue s")
    case Nil
    then show ?thesis
      by (simp add: exit_block_def effects_def disciplined_def at_most_one_def)
  next
    case (Cons e rest)
    have "effects exit_block s = effects gate_exit (s\<lparr>exitQueue := rest\<rparr>)"
      by (simp add: exit_block_def effects_def Cons)
    moreover have "trace (exit_block s) = trace (gate_exit (s\<lparr>exitQueue := rest\<rparr>))"
      by (simp add: exit_block_def Cons)
    ultimately show ?thesis
      using gate_exit_orderly [unfolded orderly_def, rule_format, of "s\<lparr>exitQueue := rest\<rparr>"]
      by simp
  qed
qed

lemma vTaskDelay_orderly: "orderly at_most_one (vTaskDelay d)"
  by (simp add: vTaskDelay_def emit_def lock_defs)

lemma gateTask_orderly: "orderly at_most_one gateTask_iter"
  unfolding gateTask_iter_def
  by (intro orderly_Cons orderly_Nil entry_block_orderly exit_block_orderly vTaskDelay_orderly)
     (simp add: at_most_one_def)

text \<open>wifiTask, sensorTask, ledTask, dhtTask\<close>

lemma wifiTask_orderly:
  "orderly at_most_one (wifiTask_iter now link link2 httpCode newTime newDate ok)"
  unfolding wifiTask_iter_def
  by (intro orderly_Cons orderly_Nil vTaskDelay_orderly)
     (simp_all add: all_prim_defs lock_defs)

lemma wifiTask_keeps:
  "keeps_gate (wifiTask_iter now link link2 httpCode newTime newDate ok)"
  unfolding wifiTask_iter_def
  by (intro keeps_gate_Cons keeps_gate_Nil)
     (simp_all add: all_prim_defs keeps_gate_def vTaskDelay_def)

lemma sensorTask_orderly: "orderly at_most_one (sensorTask_iter e1 e2 x1 x2)"
  unfolding sensorTask_iter_def
  by (intro orderly_Cons orderly_Nil vTaskDelay_orderly)
     (simp_all add: all_prim_defs lock_defs vTaskDelay_def)

lemma sensorTask_keeps: "keeps_gate (sensorTask_iter e1 e2 x1 x2)"
  unfolding sensorTask_iter_def
  by (intro keeps_gate_Cons keeps_gate_Nil)
     (simp_all add: all_prim_defs keeps_gate_def vTaskDelay_def)

lemma ledTask_orderly: "orderly at_most_one ledTask_iter"
  by (simp add: ledTask_iter_def all_prim_defs lock_defs vTaskDelay_def)

lemma ledTask_keeps: "keeps_gate ledTask_iter"
  by (simp add: ledTask_iter_def all_prim_defs keeps_gate_def vTaskDelay_def)

lemma dhtTask_orderly: "orderly at_most_one (dhtTask_iter h t dt dh)"
  by (simp add: dhtTask_iter_def all_prim_defs lock_defs vTaskDelay_def)

lemma dhtTask_keeps: "keeps_gate (dhtTask_iter h t dt dh)"
  by (simp add: dhtTask_iter_def all_prim_defs keeps_gate_def vTaskDelay_def)

text \<open>lcdTask\<close>

lemma lcdTask_orderly: "orderly under_lcd_only (lcdTask_iter tick tick' ok)"
  by (simp add: lcdTask_iter_def all_prim_defs orderly_def effects_def disciplined_def
      vTaskDelay_def split: list.split)

lemma lcdTask_keeps: "keeps_gate (lcdTask_iter tick tick' ok)"
  by (simp add: lcdTask_iter_def all_prim_defs keeps_gate_def vTaskDelay_def split: list.split)

text \<open>webServerTask\<close>

lemma handleData_orderly: "orderly at_most_one (handleData m ok)"
  by (simp add: handleData_def all_prim_defs lock_defs)

lemma handleData_keeps: "keeps_gate (handleData m ok)"
  by (simp add: handleData_def all_prim_defs keeps_gate_def)

lemma webServerTask_orderly: "orderly at_most_one (webServerTask_iter req m ok)"
proof -
  have "orderly at_most_one
     (case req of None \<Rightarrow> id
      | Some GET_root \<Rightarrow> server_send 200 ''text/html'' [AStr ''getHTML()'']
      | Some GET_data \<Rightarrow> handleData m ok)"
    by (simp add: handleData_orderly orderly_id at_most_one_def split: option.split request.split)
       (simp add: server_send_def emit_def lock_defs)
  then show ?thesis
    unfolding webServerTask_iter_def
    by (intro orderly_Cons orderly_Nil vTaskDelay_orderly) (simp_all add: at_most_one_def)
qed

lemma webServerTask_keeps: "keeps_gate (webServerTask_iter req m ok)"
proof -
  have "keeps_gate
     (case req of None \<Rightarrow> id
      | Some GET_root \<Rightarrow> server_send 200 ''text/html'' [AStr ''getHTML()'']
      | Some GET_data \<Rightarrow> handleData m ok)"
    by (simp add: handleData_keeps keeps_gate_id split: option.split request.split)
       (simp add: server_send_def emit_def keeps_gate_def)
  then show ?thesis
    unfolding webServerTask_iter_def
    by (intro keeps_gate_Cons keeps_gate_Nil) (simp_all add: keeps_gate_def vTaskDelay_def emit_def)
qed

text \<open>telegramTask\<close>

lemma handle_message_orderly: "orderly at_most_one (handle_message chat_id text ok)"
  unfolding handle_message_def
  apply (rule orderly_Cons)
   apply (simp add: all_prim_defs lock_defs)
  apply (rule orderly_Cons)
   apply (intro orderly_if orderly_id)
        apply (simp_all add: all_prim_defs lock_defs)
  done

lemma handle_messages_orderly: "orderly at_most_one (handle_messages ms)"
proof (induction ms)
  case Nil
  have eq: "handle_messages [] = seq []"
    by (rule ext) simp
  have "orderly at_most_one (seq [])"
    by (rule orderly_Nil) (simp add: at_most_one_def)
  then show ?case
    by (simp only: eq)
next
  case (Cons m ms)
  obtain chat_id cmd ok where m: "m = (chat_id, cmd, ok)"
    by (cases m) auto
  have eq: "handle_messages (m # ms) = seq [handle_message chat_id cmd ok, handle_messages ms]"
    by (rule ext) (simp add: m)
  have "orderly at_most_one (seq [handle_message chat_id cmd ok, handle_messages ms])"
    by (intro orderly_Cons orderly_Nil handle_message_orderly Cons.IH)
       (simp add: at_most_one_def)
  then show ?case
    by (simp only: eq)
qed

lemma telegramTask_orderly: "orderly at_most_one (telegramTask_iter ms)"
  unfolding telegramTask_iter_def
  by (intro orderly_Cons orderly_Nil handle_messages_orderly vTaskDelay_orderly)
     (simp add: at_most_one_def)

lemma telegramTask_keeps: "keeps_gate (telegramTask_iter ms)"
  unfolding keeps_gate_def
proof (intro allI)
  fix s
  let ?s' = "telegramTask_iter ms s"
  have fr: "?s'\<lparr>trace := trace s, msg := msg s\<rparr> = s"
    by (rule telegramTask_iter_frame)
  have "TOTAL_SLOTS ?s' = TOTAL_SLOTS (?s'\<lparr>trace := trace s, msg := msg s\<rparr>)"
    "availableSlots ?s' = availableSlots (?s'\<lparr>trace := trace s, msg := msg s\<rparr>)"
    "gateStatus ?s' = gateStatus (?s'\<lparr>trace := trace s, msg := msg s\<rparr>)"
    by simp_all
  then show "TOTAL_SLOTS ?s' = TOTAL_SLOTS s \<and> availableSlots ?s' = availableSlots s
      \<and> gateStatus ?s' = gateStatus s"
    by (simp only: fr)
qed

lemma step_orderly: "orderly under_lcd_only (step op)"
  by (cases op)
     (simp_all add: orderly_weaken wifiTask_orderly sensorTask_orderly gateTask_orderly
        ledTask_orderly dhtTask_orderly lcdTask_orderly webServerTask_orderly
        telegramTask_orderly)

lemma step_orderly_one: "\<not> is_lcd_op op \<Longrightarrow> orderly at_most_one (step op)"
  by (cases op)
     (simp_all add: wifiTask_orderly sensorTask_orderly gateTask_orderly
        ledTask_orderly dhtTask_orderly webServerTask_orderly telegramTask_orderly)

lemma step_keeps: "op \<noteq> Op_gate \<Longrightarrow> keeps_gate (step op)"
  by (cases op)
     (simp_all add: wifiTask_keeps sensorTask_keeps ledTask_keeps dhtTask_keeps lcdTask_keeps
        webServerTask_keeps telegramTask_keeps)

lemma state_mutex_guard: "state_mutex m = (\<exists>v. guard v = Some m)"
proof (cases m)
  case slotsMutex
  have "guard V_availableSlots = Some slotsMutex" by simp
  then show ?thesis unfolding slotsMutex by (simp only: state_mutex.simps) blast
next
  case gateStatusMutex
  have "guard V_gateStatus = Some gateStatusMutex" by simp
  then show ?thesis unfolding gateStatusMutex by (simp only: state_mutex.simps) blast
next
  case lcdMutex
  have "guard v \<noteq> Some lcdMutex" for v
    by (cases v) simp_all
  then show ?thesis unfolding lcdMutex by simp
next
  case dhtMutex
  have "guard V_temperature = Some dhtMutex" by simp
  then show ?thesis unfolding dhtMutex by (simp only: state_mutex.simps) blast
next
  case timeMutex
  have "guard V_currentTime = Some timeMutex" by simp
  then show ?thesis unfolding timeMutex by (simp only: state_mutex.simps) blast
qed

lemma disciplined_state:
  "disciplined under_lcd_only tr \<Longrightarrow> disciplined one_state_mutex tr"
proof -
  have "one_state_mutex h" if "under_lcd_only h" for h
    using that by (cases h rule: under_lcd_only.cases) (simp_all add: one_state_mutex_def)
  then show "disciplined under_lcd_only tr \<Longrightarrow> disciplined one_state_mutex tr"
    unfolding disciplined_def using always_held_weaken by blast
qed

text \<open>
  What \<open>lcdTask\<close> does with the mutexes when it renders the default display: it holds
  \<open>lcdMutex\<close> from start to end and, inside, takes and gives \<open>timeMutex\<close> (when the timed
  take succeeds), \<open>slotsMutex\<close> and \<open>gateStatusMutex\<close>, one after the other.
\<close>

lemma lcdTask_rendering_mutex_ops:
  assumes "lcdQueue s = []" and "updateInterval \<le> tick - lastUpdate s"
  shows "mutex_ops (effects (lcdTask_iter tick tick' ok) s) =
           [Take lcdMutex]
           @ (if ok then [Take timeMutex, Give timeMutex] else [TakeTimeout timeMutex])
           @ [Take slotsMutex, Give slotsMutex, Take gateStatusMutex, Give gateStatusMutex,
              Give lcdMutex]"
  using assms
  by (cases ok)
     (simp_all add: lcdTask_iter_def all_prim_defs effects_def mutex_ops_def vTaskDelay_def)

lemma lcdTask_holds_lcdMutex_with_timeMutex:
  "\<not> disciplined at_most_one (effects (step (Op_lcd 500 500 True)) (boot 4 False))"
  by (simp add: lcdTask_iter_def all_prim_defs effects_def disciplined_def at_most_one_def
      vTaskDelay_def updateInterval_def boot_def)

text \<open>
  C6. The locks of the shared state are the four mutexes that guard shared variables:
  \<open>slotsMutex\<close>, \<open>gateStatusMutex\<close>, \<open>dhtMutex\<close> and \<open>timeMutex\<close>. In every loop turn of
  every worker, from any state, at most one of them is held at any moment: each is taken
  while none of them is held and given back before another is taken, and none is held when
  the turn ends. \<open>lcdMutex\<close> guards the display panel and no shared variable; \<open>lcdTask\<close>
  holds it during a rendering, and the only nesting in the program is one mutex of the
  shared state taken while \<open>lcdMutex\<close> is held. Every worker other than \<open>lcdTask\<close> holds at
  most one mutex of any kind at any moment.
\<close>

theorem C6_one_state_mutex_at_a_time:
  "disciplined one_state_mutex (effects (step op) s)
   \<and> disciplined under_lcd_only (effects (step op) s)
   \<and> (\<not> is_lcd_op op \<longrightarrow> disciplined at_most_one (effects (step op) s))"
proof -
  have u: "disciplined under_lcd_only (effects (step op) s)"
    using step_orderly [of op] by (simp add: orderly_def)
  have "disciplined at_most_one (effects (step op) s)" if "\<not> is_lcd_op op"
    using step_orderly_one [OF that] by (simp add: orderly_def)
  with u disciplined_state [OF u] show ?thesis
    by blast
qed

theorem C6_one_state_mutex_at_a_time_witness:
  "\<not> is_lcd_op Op_gate
   \<and> disciplined at_most_one
       (effects (step Op_gate) ((boot 4 False)\<lparr>entryQueue := [\<lparr>ev_type = EVENT_CAR_ENTRY, ev_value = 1\<rparr>]\<rparr>))
   \<and> disciplined one_state_mutex (effects (step (Op_lcd 500 500 True)) (boot 4 False))
   \<and> disciplined under_lcd_only (effects (step (Op_lcd 500 500 True)) (boot 4 False))"
  using C6_one_state_mutex_at_a_time
          [of Op_gate "(boot 4 False)\<lparr>entryQueue := [\<lparr>ev_type = EVENT_CAR_ENTRY, ev_value = 1\<rparr>]\<rparr>"]
        C6_one_state_mutex_at_a_time [of "Op_lcd 500 500 True" "boot 4 False"]
  by simp

section \<open>Which accesses are made under a mutex\<close>

lemma shared_groups_guarded: "well_guarded [] (effects (step op) s)"
  using step_orderly [of op] by (simp add: orderly_def)

text \<open>
  C7. \<open>handleData\<close> reads \<open>wifiConnected\<close> and \<open>internetConnected\<close> while holding no mutex:
  they are the only shared variables it touches outside a critical section. \<open>wifiTask\<close>
  writes both flags while holding no mutex either. The accesses to the counter, the gate
  status, the environmental reading and the cached time are all made under the mutex of
  their group, in every turn of every worker.
\<close>

theorem C7_flags_accessed_without_mutex:
  "unlocked_accesses [] (effects (handleData m ok) s) = [V_wifiConnected, V_internetConnected]
   \<and> unlocked_accesses []
        (effects (wifiTask_iter 10000 True True 204 ''12:00:00'' ''2025/01/01'' True) (boot 4 False))
      = [V_wifiConnected, V_wifiConnected, V_wifiConnected, V_wifiConnected, V_wifiConnected,
         V_internetConnected, V_wifiConnected]
   \<and> guard V_wifiConnected = None \<and> guard V_internetConnected = None
   \<and> well_guarded [] (effects (step op) s)"
proof -
  have a: "unlocked_accesses [] (effects (handleData m ok) s)
           = [V_wifiConnected, V_internetConnected]"
    by (cases ok) (simp_all add: handleData_def all_prim_defs effects_def)
  have b: "unlocked_accesses []
        (effects (wifiTask_iter 10000 True True 204 ''12:00:00'' ''2025/01/01'' True) (boot 4 False))
      = [V_wifiConnected, V_wifiConnected, V_wifiConnected, V_wifiConnected, V_wifiConnected,
         V_internetConnected, V_wifiConnected]"
    by (simp add: wifiTask_iter_def all_prim_defs effects_def vTaskDelay_def boot_def
        checkInternetConnection_def)
  show ?thesis
    using a b shared_groups_guarded by simp
qed

section \<open>Invariants of the counter and of the gate status\<close>

lemma gate_entry_avail:
  "availableSlots (gate_entry s) =
     (if 0 < availableSlots s then availableSlots s - 1 else availableSlots s)"
  by (simp add: gate_entry_def prim_defs)

lemma gate_exit_avail:
  "availableSlots (gate_exit s) =
     (if availableSlots s < TOTAL_SLOTS s then availableSlots s + 1 else availableSlots s)"
  by (simp add: gate_exit_def prim_defs)

lemma gate_entry_total: "TOTAL_SLOTS (gate_entry s) = TOTAL_SLOTS s"
  by (simp add: gate_entry_def prim_defs)

lemma gate_exit_total: "TOTAL_SLOTS (gate_exit s) = TOTAL_SLOTS s"
  by (simp add: gate_exit_def prim_defs)

lemma gate_entry_status:
  "gateStatus (gate_entry s) = (if 0 < availableSlots s then ''Closed'' else gateStatus s)"
  by (simp add: gate_entry_def prim_defs)

lemma gate_exit_status: "gateStatus (gate_exit s) = ''Closed''"
  by (simp add: gate_exit_def prim_defs)







lemma received_in_range: "in_range s \<Longrightarrow> in_range (received e s)"
  by (cases e)
     (auto simp add: in_range_def gate_entry_avail gate_exit_avail gate_entry_total gate_exit_total)

lemma received_closed: "gate_closed s \<Longrightarrow> gate_closed (received e s)"
  by (cases e) (simp_all add: gate_closed_def gate_entry_status gate_exit_status)

lemma received_total: "TOTAL_SLOTS (received e s) = TOTAL_SLOTS s"
  by (cases e) (simp_all add: gate_entry_total gate_exit_total)

lemma entry_block_eq:
  "entry_block s = s \<or> (\<exists>rest. entry_block s = received From_entryQueue (s\<lparr>entryQueue := rest\<rparr>))"
  by (cases "entryQueue s") (auto simp add: entry_block_def)

lemma exit_block_eq:
  "exit_block s = s \<or> (\<exists>rest. exit_block s = received From_exitQueue (s\<lparr>exitQueue := rest\<rparr>))"
  by (cases "exitQueue s") (auto simp add: exit_block_def)

lemma entry_block_inv:
  "in_range s \<Longrightarrow> in_range (entry_block s)"
  "gate_closed s \<Longrightarrow> gate_closed (entry_block s)"
  "TOTAL_SLOTS (entry_block s) = TOTAL_SLOTS s"
proof -
  have r: "in_range (s\<lparr>entryQueue := rest\<rparr>) = in_range s"
    "gate_closed (s\<lparr>entryQueue := rest\<rparr>) = gate_closed s" for rest
    by (simp_all add: in_range_def gate_closed_def)
  show "in_range s \<Longrightarrow> in_range (entry_block s)"
    using entry_block_eq [of s] received_in_range r(1) by metis
  show "gate_closed s \<Longrightarrow> gate_closed (entry_block s)"
    using entry_block_eq [of s] received_closed r(2) by metis
  show "TOTAL_SLOTS (entry_block s) = TOTAL_SLOTS s"
    using entry_block_eq [of s] by (auto simp add: received_total simp del: received.simps)
qed

lemma exit_block_inv:
  "in_range s \<Longrightarrow> in_range (exit_block s)"
  "gate_closed s \<Longrightarrow> gate_closed (exit_block s)"
  "TOTAL_SLOTS (exit_block s) = TOTAL_SLOTS s"
proof -
  have r: "in_range (s\<lparr>exitQueue := rest\<rparr>) = in_range s"
    "gate_closed (s\<lparr>exitQueue := rest\<rparr>) = gate_closed s" for rest
    by (simp_all add: in_range_def gate_closed_def)
  show "in_range s \<Longrightarrow> in_range (exit_block s)"
    using exit_block_eq [of s] received_in_range r(1) by metis
  show "gate_closed s \<Longrightarrow> gate_closed (exit_block s)"
    using exit_block_eq [of s] received_closed r(2) by metis
  show "TOTAL_SLOTS (exit_block s) = TOTAL_SLOTS s"
    using exit_block_eq [of s] by (auto simp add: received_total simp del: received.simps)
qed

lemma gateTask_iter_eq: "gateTask_iter s = vTaskDelay 10 (exit_block (entry_block s))"
  by (simp add: gateTask_iter_def)

lemma vTaskDelay_inv:
  "in_range (vTaskDelay d s) = in_range s"
  "gate_closed (vTaskDelay d s) = gate_closed s"
  "TOTAL_SLOTS (vTaskDelay d s) = TOTAL_SLOTS s"
  by (simp_all add: vTaskDelay_def emit_def in_range_def gate_closed_def)

lemma step_in_range: "in_range s \<Longrightarrow> in_range (step op s)"
proof (cases "op = Op_gate")
  case True
  assume "in_range s"
  then show ?thesis
    by (simp add: True gateTask_iter_eq vTaskDelay_inv entry_block_inv exit_block_inv)
next
  case False
  assume "in_range s"
  then show ?thesis
    using step_keeps [OF False] by (simp add: keeps_gate_def in_range_def)
qed

lemma step_closed: "gate_closed s \<Longrightarrow> gate_closed (step op s)"
proof (cases "op = Op_gate")
  case True
  assume "gate_closed s"
  then show ?thesis
    by (simp add: True gateTask_iter_eq vTaskDelay_inv entry_block_inv exit_block_inv)
next
  case False
  assume "gate_closed s"
  then show ?thesis
    using step_keeps [OF False] by (simp add: keeps_gate_def gate_closed_def)
qed

lemma step_total: "TOTAL_SLOTS (step op s) = TOTAL_SLOTS s"
proof (cases "op = Op_gate")
  case True
  then show ?thesis
    by (simp add: gateTask_iter_eq vTaskDelay_inv entry_block_inv exit_block_inv)
next
  case False
  then show ?thesis
    using step_keeps [OF False] by (simp add: keeps_gate_def)
qed

lemma run_inv:
  "in_range s \<Longrightarrow> in_range (run ops s)"
  "gate_closed s \<Longrightarrow> gate_closed (run ops s)"
  "TOTAL_SLOTS (run ops s) = TOTAL_SLOTS s"
  by (induction ops arbitrary: s) (simp_all add: step_in_range step_closed step_total)

lemma process_inv:
  "in_range s \<Longrightarrow> in_range (process evs s)"
  "gate_closed s \<Longrightarrow> gate_closed (process evs s)"
  "TOTAL_SLOTS (process evs s) = TOTAL_SLOTS s"
  by (induction evs arbitrary: s)
     (simp_all add: received_in_range received_closed received_total del: received.simps)

text \<open>
  C1. Start from any state in which the counter equals the lot size and the lot size is
  not negative (the state after \<open>setup\<close> is one). After any turns of any workers, and then
  any sequence of entry and exit events handled by \<open>gateTask\<close>, the counter is at least 0
  and at most the lot size. An entry event decrements the counter exactly when it is
  positive; an exit event increments it exactly when it is below the lot size.
\<close>

theorem C1_available_within_bounds:
  assumes "availableSlots s0 = TOTAL_SLOTS s0" and "0 \<le> TOTAL_SLOTS s0"
  shows "0 \<le> availableSlots (process evs (run ops s0))
       \<and> availableSlots (process evs (run ops s0)) \<le> TOTAL_SLOTS s0
       \<and> availableSlots (gate_entry s) =
           (if 0 < availableSlots s then availableSlots s - 1 else availableSlots s)
       \<and> availableSlots (gate_exit s) =
           (if availableSlots s < TOTAL_SLOTS s then availableSlots s + 1 else availableSlots s)"
proof -
  have "in_range s0"
    using assms by (simp add: in_range_def)
  then have "in_range (process evs (run ops s0))"
    by (intro process_inv(1) run_inv(1))
  moreover have "TOTAL_SLOTS (process evs (run ops s0)) = TOTAL_SLOTS s0"
    by (simp only: process_inv(3) run_inv(3))
  ultimately show ?thesis
    by (simp add: in_range_def gate_entry_avail gate_exit_avail)
qed

theorem C1_available_within_bounds_witness:
  "availableSlots (boot 4 False) = TOTAL_SLOTS (boot 4 False)
   \<and> 0 \<le> TOTAL_SLOTS (boot 4 False)
   \<and> 0 \<le> availableSlots
        (process [From_exitQueue, From_entryQueue] (run [Op_sensor LOW HIGH HIGH HIGH, Op_gate] (boot 4 False)))
   \<and> availableSlots
        (process [From_exitQueue, From_entryQueue] (run [Op_sensor LOW HIGH HIGH HIGH, Op_gate] (boot 4 False)))
       \<le> 4"
proof -
  have h1: "availableSlots (boot 4 False) = TOTAL_SLOTS (boot 4 False)"
    by (simp add: boot_def)
  have h2: "0 \<le> TOTAL_SLOTS (boot 4 False)"
    by (simp add: boot_def)
  have t: "TOTAL_SLOTS (boot 4 False) = 4"
    by (simp add: boot_def)
  from C1_available_within_bounds
         [OF h1 h2, of "[From_exitQueue, From_entryQueue]"
            "[Op_sensor LOW HIGH HIGH HIGH, Op_gate]" "boot 4 False"]
  have "0 \<le> availableSlots
        (process [From_exitQueue, From_entryQueue] (run [Op_sensor LOW HIGH HIGH HIGH, Op_gate] (boot 4 False)))
     \<and> availableSlots
        (process [From_exitQueue, From_entryQueue] (run [Op_sensor LOW HIGH HIGH HIGH, Op_gate] (boot 4 False)))
       \<le> TOTAL_SLOTS (boot 4 False)"
    by blast
  with h1 h2 show ?thesis
    unfolding t by blast
qed






end
